theory Spec2Isabelle
  imports Complex_Main "HOL-Library.Log_Nat"
begin

section \<open>Python values and exceptions\<close>

text \<open>
  The script is Python. A Python \<open>str\<close> is modelled as a HOL \<open>string\<close>, the character
  \<open>c\<close> standing for the code point \<open>of_char c\<close>, so the model covers the strings over
  U+0000..U+00FF (the exchange's symbols and numbers are ASCII); \<open>length\<close> is \<open>len\<close>.
  A raised exception is the \<open>Inl\<close> of a result \<open>exc + 'a\<close>.
\<close>

datatype exc =
    ValueError string
  | KeyError string
  | IndexError
  | OverflowError
  | AnyStrMinLengthError nat
  | AnyStrMaxLengthError nat
  | IntegerError
  | FloatValueError string
  | ValidationError "(string \<times> exc) list"
  | RequestException

definition bind_exc :: "exc + 'a \<Rightarrow> ('a \<Rightarrow> exc + 'b) \<Rightarrow> exc + 'b" where
  "bind_exc r f = (case r of Inl e \<Rightarrow> Inl e | Inr v \<Rightarrow> f v)"

subsection \<open>Character classes of \<open>str.isupper\<close> and \<open>str.isalnum\<close>\<close>

text \<open>
  CPython's character predicates on the code points below 256 (Unicode's derived
  properties Uppercase and Lowercase, the titlecase category Lt, and the letters and
  numeric characters).
\<close>

definition Py_UNICODE_ISUPPER :: "char \<Rightarrow> bool" where
  "Py_UNICODE_ISUPPER c =
     (let n = (of_char c :: nat)
      in (65 \<le> n \<and> n \<le> 90) \<or> (192 \<le> n \<and> n \<le> 214) \<or> (216 \<le> n \<and> n \<le> 222))"

definition Py_UNICODE_ISLOWER :: "char \<Rightarrow> bool" where
  "Py_UNICODE_ISLOWER c =
     (let n = (of_char c :: nat)
      in (97 \<le> n \<and> n \<le> 122) \<or> n = 170 \<or> n = 181 \<or> n = 186
         \<or> (223 \<le> n \<and> n \<le> 246) \<or> (248 \<le> n \<and> n \<le> 255))"

definition Py_UNICODE_ISTITLE :: "char \<Rightarrow> bool" where
  "Py_UNICODE_ISTITLE c = False"

definition Py_UNICODE_ISALNUM :: "char \<Rightarrow> bool" where
  "Py_UNICODE_ISALNUM c =
     (let n = (of_char c :: nat)
      in (48 \<le> n \<and> n \<le> 57) \<or> (65 \<le> n \<and> n \<le> 90) \<or> (97 \<le> n \<and> n \<le> 122)
         \<or> n = 170 \<or> n = 178 \<or> n = 179 \<or> n = 181 \<or> n = 185 \<or> n = 186
         \<or> (188 \<le> n \<and> n \<le> 190) \<or> (192 \<le> n \<and> n \<le> 214)
         \<or> (216 \<le> n \<and> n \<le> 246) \<or> (248 \<le> n \<and> n \<le> 255))"

text \<open>
  \<open>str.isupper()\<close>: false as soon as a lowercase or titlecase character is met, and true
  at the end only if an uppercase character was seen.
\<close>

fun isupper_loop :: "bool \<Rightarrow> string \<Rightarrow> bool" where
  "isupper_loop cased [] = cased"
| "isupper_loop cased (ch # s) =
     (if Py_UNICODE_ISLOWER ch \<or> Py_UNICODE_ISTITLE ch then False
      else isupper_loop (cased \<or> Py_UNICODE_ISUPPER ch) s)"

definition isupper :: "string \<Rightarrow> bool" where
  "isupper s = isupper_loop False s"

text \<open>\<open>str.isalnum()\<close>: false on the empty string, else every character is alphanumeric.\<close>

definition isalnum :: "string \<Rightarrow> bool" where
  "isalnum s = (s \<noteq> [] \<and> list_all Py_UNICODE_ISALNUM s)"

text \<open>A string without cased characters: no uppercase, lowercase or titlecase one.\<close>

definition no_cased :: "string \<Rightarrow> bool" where
  "no_cased s =
     list_all (\<lambda>c. \<not> Py_UNICODE_ISUPPER c \<and> \<not> Py_UNICODE_ISLOWER c \<and> \<not> Py_UNICODE_ISTITLE c) s"


section \<open>PairModel\<close>

text \<open>
  \<open>PairModel\<close> is a pydantic model (the 1.x interface: \<open>validator\<close>, \<open>constr\<close>,
  \<open>allow_mutation\<close>). Constructing it validates the three fields in the order of their
  declaration. A field runs the validators of its type first (for \<open>constr\<close> the length
  bounds) and then the methods decorated for it, in the order they are written; the
  first validator that raises ends the validation of that field. The errors of all
  fields are collected, and if there is any, \<open>ValidationError\<close> is raised with the
  list of them, each with the name of its field.
\<close>

record PairModel =
  symbol :: string
  base_asset :: string
  quote_asset :: string

definition constr_length_validator ::
  "nat option \<Rightarrow> nat option \<Rightarrow> string \<Rightarrow> exc + string" where
  "constr_length_validator min_length max_length v =
     (case min_length of
        Some lo \<Rightarrow>
          if length v < lo then Inl (AnyStrMinLengthError lo)
          else (case max_length of
                  Some hi \<Rightarrow> if length v > hi then Inl (AnyStrMaxLengthError hi) else Inr v
                | None \<Rightarrow> Inr v)
      | None \<Rightarrow>
          (case max_length of
             Some hi \<Rightarrow> if length v > hi then Inl (AnyStrMaxLengthError hi) else Inr v
           | None \<Rightarrow> Inr v))"

definition validate_symbol_length :: "string \<Rightarrow> exc + string" where
  "validate_symbol_length v =
     (if length v \<noteq> 6 then Inl (ValueError ''Symbol length must be 6 characters'')
      else Inr v)"

definition validate_asset_case :: "string \<Rightarrow> exc + string" where
  "validate_asset_case v =
     (if \<not> isupper v then Inl (ValueError ''Asset symbols must be uppercase'')
      else Inr v)"

definition validate_symbol_format :: "string \<Rightarrow> exc + string" where
  "validate_symbol_format v =
     (if \<not> isalnum v then Inl (ValueError ''Symbol must contain only alphanumeric characters'')
      else Inr v)"

fun apply_validators :: "('a \<Rightarrow> exc + 'a) list \<Rightarrow> 'a \<Rightarrow> exc + 'a" where
  "apply_validators [] v = Inr v"
| "apply_validators (f # fs) v =
     (case f v of Inl e \<Rightarrow> Inl e | Inr v' \<Rightarrow> apply_validators fs v')"

definition symbol_validators :: "(string \<Rightarrow> exc + string) list" where
  "symbol_validators =
     [constr_length_validator (Some 6) (Some 6), validate_symbol_length, validate_symbol_format]"

definition asset_validators :: "(string \<Rightarrow> exc + string) list" where
  "asset_validators = [constr_length_validator None (Some 10), validate_asset_case]"

definition field_errors :: "string \<Rightarrow> exc + 'a \<Rightarrow> (string \<times> exc) list" where
  "field_errors loc r = (case r of Inl e \<Rightarrow> [(loc, e)] | Inr _ \<Rightarrow> [])"

definition PairModel_init :: "string \<Rightarrow> string \<Rightarrow> string \<Rightarrow> exc + PairModel" where
  "PairModel_init s b q =
     (let rs = apply_validators symbol_validators s;
          rb = apply_validators asset_validators b;
          rq = apply_validators asset_validators q
      in case (rs, rb, rq) of
           (Inr s', Inr b', Inr q') \<Rightarrow>
             Inr \<lparr>symbol = s', base_asset = b', quote_asset = q'\<rparr>
         | _ \<Rightarrow>
             Inl (ValidationError
                    (field_errors ''symbol'' rs @ field_errors ''base_asset'' rb
                     @ field_errors ''quote_asset'' rq)))"

text \<open>
  What an entry of the error list says, and that the record breaks the rule it names:
  the symbol is shorter or longer than 6, the symbol is not alphanumeric, an asset is
  longer than 10, an asset is not uppercase.
\<close>

definition names_violated_rule :: "string \<Rightarrow> string \<Rightarrow> string \<Rightarrow> string \<times> exc \<Rightarrow> bool" where
  "names_violated_rule s b q le =
     (let asset_rule = (\<lambda>a e.
            (e = AnyStrMaxLengthError 10 \<and> length a > 10)
          \<or> (e = ValueError ''Asset symbols must be uppercase'' \<and> \<not> isupper a))
      in (fst le = ''symbol'' \<and>
            ((snd le = AnyStrMinLengthError 6 \<and> length s < 6)
           \<or> (snd le = AnyStrMaxLengthError 6 \<and> length s > 6)
           \<or> (snd le = ValueError ''Symbol must contain only alphanumeric characters''
                \<and> \<not> isalnum s)))
       \<or> (fst le = ''base_asset'' \<and> asset_rule b (snd le))
       \<or> (fst le = ''quote_asset'' \<and> asset_rule q (snd le)))"

text \<open>
  The rules of a field in the order they are checked, each with the error it reports,
  and the first of them that a value violates.
\<close>

definition symbol_rules :: "(exc \<times> (string \<Rightarrow> bool)) list" where
  "symbol_rules =
     [(AnyStrMinLengthError 6, \<lambda>v. length v < 6),
      (AnyStrMaxLengthError 6, \<lambda>v. length v > 6),
      (ValueError ''Symbol length must be 6 characters'', \<lambda>v. length v \<noteq> 6),
      (ValueError ''Symbol must contain only alphanumeric characters'', \<lambda>v. \<not> isalnum v)]"

definition asset_rules :: "(exc \<times> (string \<Rightarrow> bool)) list" where
  "asset_rules =
     [(AnyStrMaxLengthError 10, \<lambda>v. length v > 10),
      (ValueError ''Asset symbols must be uppercase'', \<lambda>v. \<not> isupper v)]"

definition first_violation ::
  "string \<Rightarrow> (exc \<times> (string \<Rightarrow> bool)) list \<Rightarrow> string \<Rightarrow> (string \<times> exc) list" where
  "first_violation loc rules v =
     (case find (\<lambda>r. snd r v) rules of None \<Rightarrow> [] | Some r \<Rightarrow> [(loc, fst r)])"


section \<open>The exchange client\<close>

subsection \<open>\<open>get_pairs\<close>\<close>

text \<open>
  A decoded JSON object is a Python \<open>dict\<close>, here a map from its keys. The model takes
  the exchange-metadata response in the shape the exchange documents: an object whose
  entries are lists of objects with string values. \<open>d[k]\<close> raises \<open>KeyError\<close> for a key
  that is absent. The outcome of \<open>requests.get(url)\<close> followed by \<open>response.json()\<close> is
  an argument: the decoded document, or the exception the transport raised.
\<close>

type_synonym pair_data = "string \<rightharpoonup> string"

type_synonym exchange_data = "string \<rightharpoonup> pair_data list"

definition getitem :: "(string \<rightharpoonup> 'v) \<Rightarrow> string \<Rightarrow> exc + 'v" where
  "getitem d k = (case d k of None \<Rightarrow> Inl (KeyError k) | Some v \<Rightarrow> Inr v)"

fun get_pairs_loop :: "pair_data list \<Rightarrow> PairModel list \<Rightarrow> exc + PairModel list" where
  "get_pairs_loop [] pairs = Inr pairs"
| "get_pairs_loop (pair_data # rest) pairs =
     bind_exc (getitem pair_data ''symbol'') (\<lambda>s.
     bind_exc (getitem pair_data ''baseAsset'') (\<lambda>b.
     bind_exc (getitem pair_data ''quoteAsset'') (\<lambda>q.
     bind_exc (PairModel_init s b q) (\<lambda>pair.
     get_pairs_loop rest (pairs @ [pair])))))"

definition get_pairs :: "exc + exchange_data \<Rightarrow> exc + PairModel list" where
  "get_pairs response =
     bind_exc response (\<lambda>data.
     bind_exc (getitem data ''symbols'') (\<lambda>symbols.
     get_pairs_loop symbols []))"

subsection \<open>Floats and frames\<close>

text \<open>
  Python floats. \<open>Float q\<close> stands for the double nearest to the rational \<open>q\<close>, which
  is what \<open>float\<close> of a decimal string and a decimal literal of the language both give;
  equal values of the model are equal doubles (the model does not separate \<open>-0.0\<close>
  from \<open>0.0\<close>, which Python compares equal).
\<close>

datatype pyfloat = Float rat | PosInf | NegInf | NaN

text \<open>
  A pandas \<open>DataFrame\<close>: the index, the column names and the rows of cells.
\<close>

datatype cell = CInt int | CFloat pyfloat | CStr string

datatype index = RangeIndex nat | DatetimeIndex "int list"

record DataFrame =
  index :: index
  columns :: "string list"
  rows :: "cell list list"

subsection \<open>\<open>get_products\<close>\<close>

text \<open>
  The list comprehension \<open>[product['symbol'] for product in data['symbols']]\<close>.
\<close>

fun product_symbols :: "pair_data list \<Rightarrow> exc + string list" where
  "product_symbols [] = Inr []"
| "product_symbols (product # rest) =
     bind_exc (getitem product ''symbol'') (\<lambda>s.
     bind_exc (product_symbols rest) (\<lambda>ss. Inr (s # ss)))"

definition get_products :: "exc + exchange_data \<Rightarrow> exc + DataFrame" where
  "get_products response =
     bind_exc response (\<lambda>data.
     bind_exc (getitem data ''symbols'') (\<lambda>symbols.
     bind_exc (product_symbols symbols) (\<lambda>products.
     Inr \<lparr>index = RangeIndex (length products), columns = [''Product''],
          rows = map (\<lambda>p. [CStr p]) products\<rparr>)))"

text \<open>\<open>df[c]\<close>: the cells of column \<open>c\<close>, or \<open>KeyError\<close> when there is no such column.\<close>

definition getitem_column :: "DataFrame \<Rightarrow> string \<Rightarrow> exc + cell list" where
  "getitem_column df c =
     (if c \<in> set (columns df)
      then Inr (map (\<lambda>row. case map_of (zip (columns df) row) c of
                              Some v \<Rightarrow> v | None \<Rightarrow> CFloat NaN) (rows df))
      else Inl (KeyError c))"

subsection \<open>\<open>float\<close> and \<open>int\<close> of a string\<close>

text \<open>
  An element of a kline is an integer or a string in the documents of the exchange.
\<close>

datatype kvalue = KInt int | KStr string

text \<open>
  \<open>float(s)\<close> and \<open>int(s)\<close> first drop the whitespace around \<open>s\<close>. A group of digits may
  hold single underscores between digits.
\<close>

definition is_space :: "char \<Rightarrow> bool" where
  "is_space c =
     (let n = (of_char c :: nat) in (9 \<le> n \<and> n \<le> 13) \<or> n = 32 \<or> n = 133 \<or> n = 160)"

definition is_digit :: "char \<Rightarrow> bool" where
  "is_digit c = (let n = (of_char c :: nat) in 48 \<le> n \<and> n \<le> 57)"

definition strip :: "string \<Rightarrow> string" where
  "strip s = rev (dropWhile is_space (rev (dropWhile is_space s)))"

fun digits_rest :: "string \<Rightarrow> string \<times> string" where
  "digits_rest [] = ([], [])"
| "digits_rest [c] = (if is_digit c then ([c], []) else ([], [c]))"
| "digits_rest (c # d # s) =
     (if is_digit c then (case digits_rest (d # s) of (ds, r) \<Rightarrow> (c # ds, r))
      else if c = CHR ''_'' \<and> is_digit d then (case digits_rest s of (ds, r) \<Rightarrow> (d # ds, r))
      else ([], c # d # s))"

definition digitpart :: "string \<Rightarrow> (string \<times> string) option" where
  "digitpart s =
     (case s of
        [] \<Rightarrow> None
      | c # r \<Rightarrow>
          if is_digit c then (case digits_rest r of (ds, rest) \<Rightarrow> Some (c # ds, rest))
          else None)"

definition nat_of_digits :: "string \<Rightarrow> nat" where
  "nat_of_digits ds = foldl (\<lambda>n d. n * 10 + (of_char d - 48)) 0 ds"

definition sign_prefix :: "string \<Rightarrow> int \<times> string" where
  "sign_prefix s =
     (case s of
        [] \<Rightarrow> (1, [])
      | c # r \<Rightarrow> if c = CHR ''-'' then (- 1, r) else if c = CHR ''+'' then (1, r) else (1, s))"

definition lower_ascii :: "string \<Rightarrow> string" where
  "lower_ascii s =
     map (\<lambda>c. let n = (of_char c :: nat) in if 65 \<le> n \<and> n \<le> 90 then char_of (n + 32) else c) s"

definition pow10 :: "int \<Rightarrow> rat" where
  "pow10 k = (if 0 \<le> k then 10 ^ nat k else 1 / 10 ^ nat (- k))"

text \<open>
  Rounding to a double overflows to an infinity from \<open>2^1024 - 2^970\<close> on, the midpoint
  between the largest double and \<open>2^1024\<close>.
\<close>

definition round_double :: "rat \<Rightarrow> pyfloat" where
  "round_double q =
     (if \<bar>q\<bar> \<ge> 2 ^ 1024 - 2 ^ 970 then (if q > 0 then PosInf else NegInf) else Float q)"

text \<open>The digits before and after the point, and what follows the number.\<close>

definition parse_number :: "string \<Rightarrow> (string \<times> string \<times> string) option" where
  "parse_number s =
     (case digitpart s of
        Some (ip, rest) \<Rightarrow>
          (case rest of
             [] \<Rightarrow> Some (ip, [], [])
           | c # r \<Rightarrow>
               if c = CHR ''.''
               then (case digitpart r of
                       Some (fp, rest') \<Rightarrow> Some (ip, fp, rest')
                     | None \<Rightarrow> Some (ip, [], r))
               else Some (ip, [], rest))
      | None \<Rightarrow>
          (case s of
             [] \<Rightarrow> None
           | c # r \<Rightarrow>
               if c = CHR ''.''
               then (case digitpart r of
                       Some (fp, rest) \<Rightarrow> Some ([], fp, rest)
                     | None \<Rightarrow> None)
               else None))"

definition parse_exponent :: "string \<Rightarrow> (int \<times> string) option" where
  "parse_exponent s =
     (case s of
        [] \<Rightarrow> Some (0, [])
      | c # r \<Rightarrow>
          if c = CHR ''e'' \<or> c = CHR ''E''
          then (case sign_prefix r of
                  (sg, r') \<Rightarrow>
                    (case digitpart r' of
                       Some (ds, rest) \<Rightarrow> Some (sg * int (nat_of_digits ds), rest)
                     | None \<Rightarrow> None))
          else Some (0, s))"

definition float_of_str :: "string \<Rightarrow> pyfloat option" where
  "float_of_str s0 =
     (case sign_prefix (strip s0) of
        (sg, s) \<Rightarrow>
          if lower_ascii s = ''inf'' \<or> lower_ascii s = ''infinity''
          then Some (if sg = 1 then PosInf else NegInf)
          else if lower_ascii s = ''nan'' then Some NaN
          else (case parse_number s of
                  None \<Rightarrow> None
                | Some (ip, fp, rest) \<Rightarrow>
                    (case parse_exponent rest of
                       None \<Rightarrow> None
                     | Some (e, rest') \<Rightarrow>
                         if rest' \<noteq> [] then None
                         else Some (round_double
                                (of_int sg * of_nat (nat_of_digits (ip @ fp))
                                 * pow10 (e - int (length fp)))))))"

definition int_of_str :: "string \<Rightarrow> int option" where
  "int_of_str s0 =
     (case sign_prefix (strip s0) of
        (sg, s) \<Rightarrow>
          (case digitpart s of
             None \<Rightarrow> None
           | Some (ds, rest) \<Rightarrow> if rest = [] then Some (sg * int (nat_of_digits ds)) else None))"

text \<open>
  \<open>float(v)\<close> for an element of a kline: a string is parsed and raises \<open>ValueError\<close>
  when it is no number; an integer is converted and raises \<open>OverflowError\<close> when it is
  too large for a double.
\<close>

definition py_float :: "kvalue \<Rightarrow> exc + pyfloat" where
  "py_float v =
     (case v of
        KInt n \<Rightarrow>
          if \<bar>of_int n :: rat\<bar> \<ge> 2 ^ 1024 - 2 ^ 970 then Inl OverflowError
          else Inr (Float (of_int n))
      | KStr s \<Rightarrow>
          (case float_of_str s of
             None \<Rightarrow> Inl (FloatValueError s)
           | Some x \<Rightarrow> Inr x))"


subsection \<open>HistoricalData\<close>

text \<open>
  \<open>HistoricalData\<close> is a pydantic model without validator methods. Its \<open>int\<close> fields
  take an integer as it is and a string through \<open>int\<close> (strings longer than 4300
  characters are refused), and report \<open>IntegerError\<close> otherwise; its \<open>float\<close> fields
  receive floats, which pass unchanged. As for \<open>PairModel\<close>, the errors of all fields
  are collected in the order of the fields.
\<close>

record HistoricalData =
  open_time :: int
  open' :: pyfloat
  high :: pyfloat
  low :: pyfloat
  close :: pyfloat
  volume :: pyfloat
  close_time :: int
  quote_asset_volume :: pyfloat
  num_trades :: int
  taker_buy_base_asset_volume :: pyfloat
  taker_buy_quote_asset_volume :: pyfloat
  ignore :: pyfloat

definition int_validator :: "kvalue \<Rightarrow> exc + int" where
  "int_validator v =
     (case v of
        KInt n \<Rightarrow> Inr n
      | KStr s \<Rightarrow>
          if length s > 4300 then Inl IntegerError
          else (case int_of_str s of None \<Rightarrow> Inl IntegerError | Some n \<Rightarrow> Inr n))"

definition HistoricalData_init ::
  "kvalue \<Rightarrow> pyfloat \<Rightarrow> pyfloat \<Rightarrow> pyfloat \<Rightarrow> pyfloat \<Rightarrow> pyfloat \<Rightarrow> kvalue \<Rightarrow> pyfloat
     \<Rightarrow> kvalue \<Rightarrow> pyfloat \<Rightarrow> pyfloat \<Rightarrow> pyfloat \<Rightarrow> exc + HistoricalData" where
  "HistoricalData_init ot op hi lo cl vol ct qav nt tbb tbq ig =
     (let rot = int_validator ot; rct = int_validator ct; rnt = int_validator nt
      in case (rot, rct, rnt) of
           (Inr ot', Inr ct', Inr nt') \<Rightarrow>
             Inr \<lparr>open_time = ot', open' = op, high = hi, low = lo, close = cl, volume = vol,
                  close_time = ct', quote_asset_volume = qav, num_trades = nt',
                  taker_buy_base_asset_volume = tbb, taker_buy_quote_asset_volume = tbq,
                  ignore = ig\<rparr>
         | _ \<Rightarrow>
             Inl (ValidationError
                    (field_errors ''open_time'' rot @ field_errors ''close_time'' rct
                     @ field_errors ''num_trades'' rnt)))"

subsection \<open>\<open>get_historical_data\<close>\<close>

text \<open>\<open>candle[i]\<close> raises \<open>IndexError\<close> past the end of the list.\<close>

definition candle_getitem :: "kvalue list \<Rightarrow> nat \<Rightarrow> exc + kvalue" where
  "candle_getitem candle i = (if i < length candle then Inr (candle ! i) else Inl IndexError)"

text \<open>
  The arguments of the constructor are evaluated from left to right, so the first
  element that is missing or is no number raises; the model is built after that.
\<close>

definition parse_candle :: "kvalue list \<Rightarrow> exc + HistoricalData" where
  "parse_candle candle =
     bind_exc (candle_getitem candle 0) (\<lambda>ot.
     bind_exc (bind_exc (candle_getitem candle 1) py_float) (\<lambda>op.
     bind_exc (bind_exc (candle_getitem candle 2) py_float) (\<lambda>hi.
     bind_exc (bind_exc (candle_getitem candle 3) py_float) (\<lambda>lo.
     bind_exc (bind_exc (candle_getitem candle 4) py_float) (\<lambda>cl.
     bind_exc (bind_exc (candle_getitem candle 5) py_float) (\<lambda>vol.
     bind_exc (candle_getitem candle 6) (\<lambda>ct.
     bind_exc (bind_exc (candle_getitem candle 7) py_float) (\<lambda>qav.
     bind_exc (candle_getitem candle 8) (\<lambda>nt.
     bind_exc (bind_exc (candle_getitem candle 9) py_float) (\<lambda>tbb.
     bind_exc (bind_exc (candle_getitem candle 10) py_float) (\<lambda>tbq.
     bind_exc (bind_exc (candle_getitem candle 11) py_float) (\<lambda>ig.
     HistoricalData_init ot op hi lo cl vol ct qav nt tbb tbq ig))))))))))))"

fun historical_data_loop ::
  "kvalue list list \<Rightarrow> HistoricalData list \<Rightarrow> exc + HistoricalData list" where
  "historical_data_loop [] historical_data = Inr historical_data"
| "historical_data_loop (candle # rest) historical_data =
     bind_exc (parse_candle candle) (\<lambda>h. historical_data_loop rest (historical_data @ [h]))"

text \<open>
  The GET of the klines is the argument \<open>api\<close>: for the query parameters it gives the
  decoded document or the exception of the transport.
\<close>

definition get_historical_data ::
  "(string \<Rightarrow> string \<Rightarrow> int \<Rightarrow> int \<Rightarrow> exc + kvalue list list)
     \<Rightarrow> string \<Rightarrow> string \<Rightarrow> int \<Rightarrow> int \<Rightarrow> exc + HistoricalData list" where
  "get_historical_data api symbol_name interval start_time end_time =
     bind_exc (api symbol_name interval start_time end_time) (\<lambda>data.
     historical_data_loop data [])"


section \<open>The time series\<close>

text \<open>
  \<open>candle.dict()\<close> lists the twelve fields in the order of their declaration.
\<close>

definition HistoricalData_dict :: "HistoricalData \<Rightarrow> (string \<times> cell) list" where
  "HistoricalData_dict h =
     [(''open_time'', CInt (open_time h)), (''open'', CFloat (open' h)),
      (''high'', CFloat (high h)), (''low'', CFloat (low h)), (''close'', CFloat (close h)),
      (''volume'', CFloat (volume h)), (''close_time'', CInt (close_time h)),
      (''quote_asset_volume'', CFloat (quote_asset_volume h)),
      (''num_trades'', CInt (num_trades h)),
      (''taker_buy_base_asset_volume'', CFloat (taker_buy_base_asset_volume h)),
      (''taker_buy_quote_asset_volume'', CFloat (taker_buy_quote_asset_volume h)),
      (''ignore'', CFloat (ignore h))]"

text \<open>
  \<open>pd.DataFrame(records)\<close> for a list of dicts: the columns are the keys of the dicts
  in the order they first appear, a row holds the values of one dict (\<open>NaN\<close> for a key
  it lacks), and the index counts the rows. The empty list gives a frame without
  columns.
\<close>

definition DataFrame_of_dicts :: "(string \<times> cell) list list \<Rightarrow> DataFrame" where
  "DataFrame_of_dicts records =
     (let cols = rev (remdups (rev (concat (map (map fst) records))))
      in \<lparr>index = RangeIndex (length records), columns = cols,
           rows = map (\<lambda>d. map (\<lambda>c. case map_of d c of Some v \<Rightarrow> v | None \<Rightarrow> CFloat NaN) cols)
                    records\<rparr>)"

text \<open>\<open>df.index = idx\<close> raises \<open>ValueError\<close> when the lengths differ.\<close>

definition set_index :: "DataFrame \<Rightarrow> int list \<Rightarrow> exc + DataFrame" where
  "set_index df idx =
     (if length idx = length (rows df) then Inr (df\<lparr>index := DatetimeIndex idx\<rparr>)
      else Inl (ValueError ''Length mismatch''))"

text \<open>
  The two lines of the orchestrator that build the frame of a window and index it by
  \<open>open_time\<close>. \<open>pd.to_datetime(column, unit='ms')\<close> is the argument \<open>to_datetime\<close>.
\<close>

definition historical_data_df ::
  "(cell list \<Rightarrow> exc + int list) \<Rightarrow> HistoricalData list \<Rightarrow> exc + DataFrame" where
  "historical_data_df to_datetime historical_data =
     (let df = DataFrame_of_dicts (map HistoricalData_dict historical_data)
      in bind_exc (getitem_column df ''open_time'') (\<lambda>col.
         bind_exc (to_datetime col) (\<lambda>idx.
         set_index df idx)))"


section \<open>The windows\<close>

text \<open>
  A naive \<open>datetime\<close> is the count of microseconds on the wall clock since
  1970-01-01 00:00:00, a \<open>timedelta\<close> a count of microseconds. Subtracting raises
  \<open>OverflowError\<close> outside the years 1 to 9999.
\<close>

datatype datetime = Datetime int

datatype timedelta = Timedelta int

definition timedelta_days :: "int \<Rightarrow> timedelta" where
  "timedelta_days d = Timedelta (d * 86400000000)"

definition datetime_min :: int where
  "datetime_min = - 62135596800000000"

definition datetime_max :: int where
  "datetime_max = 253402300799999999"

definition datetime_sub :: "datetime \<Rightarrow> timedelta \<Rightarrow> exc + datetime" where
  "datetime_sub t d =
     (case t of Datetime u \<Rightarrow>
        (case d of Timedelta v \<Rightarrow>
           if datetime_min \<le> u - v \<and> u - v \<le> datetime_max then Inr (Datetime (u - v))
           else Inl OverflowError))"

definition start_time_day :: "datetime \<Rightarrow> exc + datetime" where
  "start_time_day end_time = datetime_sub end_time (timedelta_days 1)"

definition start_time_month :: "datetime \<Rightarrow> exc + datetime" where
  "start_time_month end_time = datetime_sub end_time (timedelta_days 30)"

definition start_time_year :: "datetime \<Rightarrow> exc + datetime" where
  "start_time_year end_time = datetime_sub end_time (timedelta_days 365)"

subsection \<open>Doubles\<close>

text \<open>
  \<open>t.timestamp()\<close> computes in C doubles. A finite double is the rational it denotes,
  and \<open>nearest_double x\<close> is the double that an operation with the exact result \<open>x\<close>
  returns (IEEE 754 binary64, round to nearest, a tie to the even significand; the
  results here are far below the overflow threshold). For a positive \<open>x\<close>, \<open>ilog2 x\<close>
  is its binary exponent, the \<open>e\<close> with \<open>2^e \<le> x < 2^(e+1)\<close>, and \<open>ulp x\<close> the distance
  between the doubles around \<open>x\<close>: 52 bits below the exponent, and \<open>2^-1074\<close> for
  the subnormal numbers.
\<close>

definition round_half_even :: "rat \<Rightarrow> int" where
  "round_half_even x =
     (let n = \<lfloor>x\<rfloor>; r = x - of_int n
      in if r < 1 / 2 then n else if 1 / 2 < r then n + 1 else if even n then n else n + 1)"

definition ilog2 :: "rat \<Rightarrow> int" where
  "ilog2 x = (if 1 \<le> x then bitlen \<lfloor>x\<rfloor> - 1 else - bitlen (\<lceil>1 / x\<rceil> - 1))"

definition ulp :: "rat \<Rightarrow> rat" where
  "ulp x = 2 powi (max (ilog2 \<bar>x\<bar>) (- 1022) - 52)"

definition nearest_double :: "rat \<Rightarrow> rat" where
  "nearest_double x = (if x = 0 then 0 else ulp x * of_int (round_half_even (x / ulp x)))"

subsection \<open>\<open>timestamp\<close>\<close>

text \<open>
  \<open>t.timestamp()\<close> of a naive datetime: the whole seconds of the wall clock are turned
  into seconds since the epoch by the rules of the local time zone, the argument
  \<open>mktime\<close>, which raises where the platform has no answer (\<open>ValueError\<close> on the first
  and last days of the range of \<open>datetime\<close>, \<open>OverflowError\<close> outside the platform's
  \<open>time_t\<close>). The result is the double \<open>seconds + microsecond / 1e6\<close>: the seconds
  are converted to a double, the quotient is rounded and the sum is rounded.
  \<open>int\<close> of a double drops its fraction, towards zero.
\<close>

definition timestamp :: "(int \<Rightarrow> exc + int) \<Rightarrow> datetime \<Rightarrow> exc + rat" where
  "timestamp mktime t =
     (case t of Datetime u \<Rightarrow>
        bind_exc (mktime (u div 1000000)) (\<lambda>seconds.
        Inr (nearest_double (nearest_double (of_int seconds)
                             + nearest_double (of_int (u mod 1000000) / 1000000)))))"

definition py_int :: "rat \<Rightarrow> int" where
  "py_int x = (if 0 \<le> x then \<lfloor>x\<rfloor> else \<lceil>x\<rceil>)"

text \<open>\<open>int(t.timestamp())*1000\<close>, the time that is passed to the klines request.\<close>

definition request_time :: "(int \<Rightarrow> exc + int) \<Rightarrow> datetime \<Rightarrow> exc + int" where
  "request_time mktime t = bind_exc (timestamp mktime t) (\<lambda>x. Inr (py_int x * 1000))"



section \<open>Logging\<close>

text \<open>
  A \<open>LogRecord\<close> is one object, handed to every handler of the logger in turn; a
  handler formats it with its formatter and writes the line. \<open>CustomFormatter.format\<close>
  assigns to \<open>record.msg\<close>, so it returns the record it leaves behind with the line.
  \<open>asctime\<close> is the text of the time the record was made.
\<close>

datatype level = DEBUG | INFO | WARNING | ERROR | CRITICAL

definition levelno_of :: "level \<Rightarrow> nat" where
  "levelno_of l = (case l of DEBUG \<Rightarrow> 10 | INFO \<Rightarrow> 20 | WARNING \<Rightarrow> 30 | ERROR \<Rightarrow> 40
                   | CRITICAL \<Rightarrow> 50)"

definition getLevelName :: "level \<Rightarrow> string" where
  "getLevelName l = (case l of DEBUG \<Rightarrow> ''DEBUG'' | INFO \<Rightarrow> ''INFO'' | WARNING \<Rightarrow> ''WARNING''
                     | ERROR \<Rightarrow> ''ERROR'' | CRITICAL \<Rightarrow> ''CRITICAL'')"

record LogRecord =
  name :: string
  levelno :: nat
  levelname :: string
  msg :: string
  asctime :: string

datatype handler = console_handler | file_handler

text \<open>The format \<open>%(asctime)s - %(name)s - %(levelname)s - %(message)s\<close>.\<close>

definition Formatter_format :: "LogRecord \<Rightarrow> string" where
  "Formatter_format r = asctime r @ '' - '' @ name r @ '' - '' @ levelname r @ '' - '' @ msg r"

definition CustomFormatter_format :: "LogRecord \<Rightarrow> string \<times> LogRecord" where
  "CustomFormatter_format r =
     (let r' = r\<lparr>msg := ''CUSTOM: '' @ msg r\<rparr> in (Formatter_format r', r'))"

fun callHandlers :: "handler list \<Rightarrow> LogRecord \<Rightarrow> (handler \<times> string) list" where
  "callHandlers [] r = []"
| "callHandlers (h # hs) r =
     (case CustomFormatter_format r of (line, r') \<Rightarrow> (h, line) # callHandlers hs r')"

record Logger =
  logger_name :: string
  logger_level :: nat
  handlers :: "handler list"

definition baseloader_logger :: Logger where
  "baseloader_logger =
     \<lparr>logger_name = ''baseloader'', logger_level = levelno_of INFO,
      handlers = [console_handler, file_handler]\<rparr>"

definition binanceloader_logger :: Logger where
  "binanceloader_logger =
     \<lparr>logger_name = ''binanceloader'', logger_level = levelno_of INFO,
      handlers = [console_handler, file_handler]\<rparr>"

text \<open>
  \<open>logger.log(level, m)\<close> at the time \<open>t\<close>: the lines written, each with the handler that
  wrote it, in the order of the handlers. A message below the level of the logger is
  dropped.
\<close>

definition Logger_log :: "Logger \<Rightarrow> string \<Rightarrow> level \<Rightarrow> string \<Rightarrow> (handler \<times> string) list" where
  "Logger_log logger t l m =
     (if levelno_of l \<ge> logger_level logger
      then callHandlers (handlers logger)
             \<lparr>name = logger_name logger, levelno = levelno_of l, levelname = getLevelName l,
              msg = m, asctime = t\<rparr>
      else [])"


section \<open>The orchestrator\<close>

text \<open>
  What the script does to the world is a trace of events: what it prints, the requests
  it sends and the charts it asks for. What the world answers is the environment: the
  clock, the rules of the local time zone, the answers of the exchange, and whether
  pandas converts a column and mplfinance draws a frame.
\<close>

datatype window = Day | Month | Year

datatype event =
    Print_products_header
  | Print_frame DataFrame
  | Print_history_header string
  | Print_window_header window
  | Print_charts_header string
  | Print_chart_header window
  | GET_exchangeInfo
  | GET_klines string string int int
  | Plot DataFrame string

record env =
  clock_now :: datetime
  local_mktime :: "int \<Rightarrow> exc + int"
  exchange_info_response :: "exc + exchange_data"
  klines_response :: "string \<Rightarrow> string \<Rightarrow> int \<Rightarrow> int \<Rightarrow> exc + kvalue list list"
  pd_to_datetime :: "cell list \<Rightarrow> exc + int list"
  mpf_plot :: "DataFrame \<Rightarrow> string \<Rightarrow> exc + unit"

type_synonym 'a run = "event list \<Rightarrow> event list \<times> (exc + 'a)"

definition emit :: "event \<Rightarrow> unit run" where
  "emit e tr = (tr @ [e], Inr ())"

definition lift :: "exc + 'a \<Rightarrow> 'a run" where
  "lift r tr = (tr, r)"

text \<open>An exception ends the run: what follows is not executed.\<close>

definition then_run :: "'a run \<Rightarrow> ('a \<Rightarrow> 'b run) \<Rightarrow> 'b run" where
  "then_run m f tr =
     (case m tr of (tr', r) \<Rightarrow> (case r of Inl e \<Rightarrow> (tr', Inl e) | Inr v \<Rightarrow> f v tr'))"

definition interval :: string where
  "interval = ''1d''"

definition selected_products :: "string list" where
  "selected_products = [''BTCUSDT'', ''ETHUSDT'', ''LTCUSDT'']"

definition plot_candlestick :: "env \<Rightarrow> DataFrame \<Rightarrow> string \<Rightarrow> unit run" where
  "plot_candlestick env df title =
     then_run (emit (Plot df title)) (\<lambda>_. lift (mpf_plot env df title))"

text \<open>
  One window of one product: the label, the two times of the request, the request, the
  frame, its printing.
\<close>

definition fetch_window :: "env \<Rightarrow> window \<Rightarrow> string \<Rightarrow> datetime \<Rightarrow> datetime \<Rightarrow> DataFrame run" where
  "fetch_window env w product start_time end_time =
     then_run (emit (Print_window_header w)) (\<lambda>_.
     then_run (lift (request_time (local_mktime env) start_time)) (\<lambda>st.
     then_run (lift (request_time (local_mktime env) end_time)) (\<lambda>et.
     then_run (emit (GET_klines product interval st et)) (\<lambda>_.
     then_run (lift (get_historical_data (klines_response env) product interval st et))
       (\<lambda>historical_data.
     then_run (lift (historical_data_df (pd_to_datetime env) historical_data)) (\<lambda>df.
     then_run (emit (Print_frame df)) (\<lambda>_.
     lift (Inr df))))))))"

definition product_body ::
  "env \<Rightarrow> datetime \<Rightarrow> datetime \<Rightarrow> datetime \<Rightarrow> datetime \<Rightarrow> string \<Rightarrow> unit run" where
  "product_body env sd sm sy end_time product =
     then_run (emit (Print_history_header product)) (\<lambda>_.
     then_run (fetch_window env Day product sd end_time) (\<lambda>day_df.
     then_run (fetch_window env Month product sm end_time) (\<lambda>month_df.
     then_run (fetch_window env Year product sy end_time) (\<lambda>year_df.
     then_run (emit (Print_charts_header product)) (\<lambda>_.
     then_run (emit (Print_chart_header Day)) (\<lambda>_.
     then_run (plot_candlestick env day_df (product @ '' - Last Day'')) (\<lambda>_.
     then_run (emit (Print_chart_header Month)) (\<lambda>_.
     then_run (plot_candlestick env month_df (product @ '' - Last Month'')) (\<lambda>_.
     then_run (emit (Print_chart_header Year)) (\<lambda>_.
     plot_candlestick env year_df (product @ '' - Last Year'')))))))))))"

fun products_loop ::
  "env \<Rightarrow> datetime \<Rightarrow> datetime \<Rightarrow> datetime \<Rightarrow> datetime \<Rightarrow> string list \<Rightarrow> unit run" where
  "products_loop env sd sm sy end_time [] = lift (Inr ())"
| "products_loop env sd sm sy end_time (product # rest) =
     then_run (product_body env sd sm sy end_time product) (\<lambda>_.
     products_loop env sd sm sy end_time rest)"

text \<open>The script from its first \<open>print\<close> on, started with nothing done yet.\<close>

definition orchestrator :: "env \<Rightarrow> event list \<times> (exc + unit)" where
  "orchestrator env =
     then_run (emit Print_products_header) (\<lambda>_.
     then_run (emit GET_exchangeInfo) (\<lambda>_.
     then_run (lift (get_products (exchange_info_response env))) (\<lambda>products_df.
     then_run (emit (Print_frame products_df)) (\<lambda>_.
     then_run (lift (start_time_day (clock_now env))) (\<lambda>sd.
     then_run (lift (start_time_month (clock_now env))) (\<lambda>sm.
     then_run (lift (start_time_year (clock_now env))) (\<lambda>sy.
     products_loop env sd sm sy (clock_now env) selected_products))))))) []"

subsection \<open>The steps of a window\<close>

text \<open>
  What one window computes, without its trace: the two times of the request, the
  candles fetched and parsed by \<open>get_historical_data\<close>, the frame assembled from them.
  The outcome is the exception of the first of these steps that raises, or the frame.
  The trace of a window is its label, the request once both times are there, and the
  frame once it is assembled.
\<close>

definition window_outcome :: "env \<Rightarrow> string \<Rightarrow> datetime \<Rightarrow> datetime \<Rightarrow> exc + DataFrame" where
  "window_outcome env product start_time end_time =
     bind_exc (request_time (local_mktime env) start_time) (\<lambda>st.
     bind_exc (request_time (local_mktime env) end_time) (\<lambda>et.
     bind_exc (get_historical_data (klines_response env) product interval st et)
       (\<lambda>historical_data.
     historical_data_df (pd_to_datetime env) historical_data)))"

definition window_trace :: "env \<Rightarrow> window \<Rightarrow> string \<Rightarrow> datetime \<Rightarrow> datetime \<Rightarrow> event list" where
  "window_trace env w product start_time end_time =
     Print_window_header w #
     (case request_time (local_mktime env) start_time of
        Inl e \<Rightarrow> []
      | Inr st \<Rightarrow>
          (case request_time (local_mktime env) end_time of
             Inl e \<Rightarrow> []
           | Inr et \<Rightarrow>
               GET_klines product interval st et #
               (case window_outcome env product start_time end_time of
                  Inl e \<Rightarrow> []
                | Inr df \<Rightarrow> [Print_frame df])))"


section \<open>Example inputs\<close>

text \<open>
  The kline of the specification's test, the candle it parses to and the frame built
  from that candle, and an environment in which every step succeeds: the clock shows
  2023-07-22 04:26:40.5 in a zone that is UTC, the exchange lists one pair and answers
  every klines request with that one kline.
\<close>

definition example_kline :: "kvalue list" where
  "example_kline =
     [KInt 1690000000000, KStr ''100.5'', KStr ''101.0'', KStr ''99.5'', KStr ''100.8'',
      KStr ''10.0'', KInt 1690003600000, KStr ''1000.0'', KInt 42, KStr ''5.0'',
      KStr ''500.0'', KStr ''0'']"

definition example_candle :: HistoricalData where
  "example_candle =
     \<lparr>open_time = 1690000000000, open' = Float 100.5, high = Float 101.0,
      low = Float 99.5, close = Float 100.8, volume = Float 10.0,
      close_time = 1690003600000, quote_asset_volume = Float 1000.0, num_trades = 42,
      taker_buy_base_asset_volume = Float 5.0, taker_buy_quote_asset_volume = Float 500.0,
      ignore = Float 0\<rparr>"

definition example_df :: DataFrame where
  "example_df =
     \<lparr>index = DatetimeIndex [1690000000000000000],
      columns = [''open_time'', ''open'', ''high'', ''low'', ''close'', ''volume'', ''close_time'',
                 ''quote_asset_volume'', ''num_trades'', ''taker_buy_base_asset_volume'',
                 ''taker_buy_quote_asset_volume'', ''ignore''],
      rows = [[CInt 1690000000000, CFloat (Float 100.5), CFloat (Float 101.0),
               CFloat (Float 99.5), CFloat (Float 100.8), CFloat (Float 10.0),
               CInt 1690003600000, CFloat (Float 1000.0), CInt 42, CFloat (Float 5.0),
               CFloat (Float 500.0), CFloat (Float 0)]]\<rparr>"

definition example_env :: env where
  "example_env =
     \<lparr>clock_now = Datetime 1690000000500000,
      local_mktime = (\<lambda>w. Inr w),
      exchange_info_response = Inr [''symbols'' \<mapsto>
         [[''symbol'' \<mapsto> ''BTCUSDT'', ''baseAsset'' \<mapsto> ''BTC'', ''quoteAsset'' \<mapsto> ''USDT'']]],
      klines_response = (\<lambda>product iv st et. Inr [example_kline]),
      pd_to_datetime =
        (\<lambda>col. Inr (map (\<lambda>c. case c of CInt ms \<Rightarrow> ms * 1000000 | _ \<Rightarrow> 0) col)),
      mpf_plot = (\<lambda>df title. Inr ())\<rparr>"

text \<open>
  The same environment, but the exchange fails on the request for the month window of
  ETHUSDT.
\<close>

definition failing_env :: env where
  "failing_env = example_env\<lparr>klines_response :=
       (\<lambda>product iv st et.
          if product = ''ETHUSDT'' \<and> st = 1687408000000 then Inl RequestException
          else Inr [example_kline])\<rparr>"

text \<open>
  The same environment, but mplfinance fails on the chart of the month of BTCUSDT.
\<close>

definition plot_failing_env :: env where
  "plot_failing_env = example_env\<lparr>mpf_plot :=
       (\<lambda>df title.
          if title = ''BTCUSDT - Last Month'' then Inl (ValueError ''mpf.plot'')
          else Inr ())\<rparr>"




section \<open>Properties of PairModel\<close>

lemma symbol_chain:
  "apply_validators symbol_validators s =
     (if length s < 6 then Inl (AnyStrMinLengthError 6)
      else if length s > 6 then Inl (AnyStrMaxLengthError 6)
      else if \<not> isalnum s
        then Inl (ValueError ''Symbol must contain only alphanumeric characters'')
      else Inr s)"
  by (simp add: symbol_validators_def constr_length_validator_def validate_symbol_length_def
        validate_symbol_format_def)

lemma asset_chain:
  "apply_validators asset_validators a =
     (if length a > 10 then Inl (AnyStrMaxLengthError 10)
      else if \<not> isupper a then Inl (ValueError ''Asset symbols must be uppercase'')
      else Inr a)"
  by (simp add: asset_validators_def constr_length_validator_def validate_asset_case_def)

lemma PairModel_init_Inr:
  "PairModel_init s b q = Inr p \<Longrightarrow> p = \<lparr>symbol = s, base_asset = b, quote_asset = q\<rparr>"
  by (auto simp: PairModel_init_def Let_def symbol_chain asset_chain split: if_splits)

lemma isupper_loop_no_cased: "no_cased s \<Longrightarrow> isupper_loop cased s = cased"
  by (induction s arbitrary: cased) (auto simp: no_cased_def)

lemmas char_class_defs =
  Py_UNICODE_ISUPPER_def Py_UNICODE_ISLOWER_def Py_UNICODE_ISTITLE_def Py_UNICODE_ISALNUM_def

text \<open>
  C3: a record whose symbol has a length other than 6, or whose symbol is not
  alphanumeric, or one of whose assets is not uppercase, is refused: the construction
  raises \<open>ValidationError\<close>, the error list is not empty, and every entry of it names a
  rule that the record violates.
\<close>

theorem PairModel_rejects_invalid:
  assumes "length s \<noteq> 6 \<or> \<not> isalnum s \<or> \<not> isupper b \<or> \<not> isupper q"
  shows "\<exists>errs. PairModel_init s b q = Inl (ValidationError errs) \<and> errs \<noteq> []
           \<and> list_all (names_violated_rule s b q) errs"
  using assms
  by (auto simp: PairModel_init_def symbol_chain asset_chain field_errors_def
        names_violated_rule_def)

theorem PairModel_rejects_invalid_witness:
  "length ''BTCUSDT'' = 7
   \<and> (\<exists>errs. PairModel_init ''BTCUSDT'' ''btc'' ''USDT'' = Inl (ValidationError errs)
          \<and> errs \<noteq> [] \<and> list_all (names_violated_rule ''BTCUSDT'' ''btc'' ''USDT'') errs)"
proof -
  have h: "length ''BTCUSDT'' \<noteq> 6 \<or> \<not> isalnum ''BTCUSDT'' \<or> \<not> isupper ''btc''
             \<or> \<not> isupper ''USDT''"
    by simp
  from PairModel_rejects_invalid [OF h] show ?thesis
    by simp
qed

text \<open>
  C4: a symbol of exactly 6 alphanumeric characters with a base and a quote asset that
  are uppercase and at most 10 characters long is accepted, and the record built holds
  the three strings unchanged.
\<close>

theorem PairModel_accepts_valid:
  assumes "length s = 6" and "isalnum s"
    and "isupper b" and "length b \<le> 10" and "isupper q" and "length q \<le> 10"
  shows "PairModel_init s b q = Inr \<lparr>symbol = s, base_asset = b, quote_asset = q\<rparr>"
  using assms by (simp add: PairModel_init_def symbol_chain asset_chain)

theorem PairModel_accepts_valid_witness:
  "PairModel_init ''ETHBTC'' ''ETH'' ''BTC''
     = Inr \<lparr>symbol = ''ETHBTC'', base_asset = ''ETH'', quote_asset = ''BTC''\<rparr>"
  by (rule PairModel_accepts_valid) (simp_all add: isalnum_def isupper_def char_class_defs)

text \<open>
  C7, as stated, fails: a record that violates a rule of the symbol and a rule of the
  base asset gets both reported, not only the first.
\<close>

theorem PairModel_reports_two_rules:
  "PairModel_init ''abc'' ''btc'' ''USDT''
     = Inl (ValidationError
              [(''symbol'', AnyStrMinLengthError 6),
               (''base_asset'', ValueError ''Asset symbols must be uppercase'')])"
  by (simp add: PairModel_init_def symbol_chain asset_chain field_errors_def
        isupper_def char_class_defs)

text \<open>
  C7, amended: validation is fail-fast within a field. Each of the three fields is
  checked on its own, its rules in order, and stops at the first rule it violates; the
  \<open>ValidationError\<close> lists, in the order of the fields, the first violated rule of every
  field that has one, and the record is built when no field has one.
\<close>

theorem PairModel_fail_fast_per_field:
  "PairModel_init s b q =
     (case first_violation ''symbol'' symbol_rules s
           @ first_violation ''base_asset'' asset_rules b
           @ first_violation ''quote_asset'' asset_rules q of
        [] \<Rightarrow> Inr \<lparr>symbol = s, base_asset = b, quote_asset = q\<rparr>
      | errs \<Rightarrow> Inl (ValidationError errs))"
  by (simp add: PairModel_init_def symbol_chain asset_chain field_errors_def
        first_violation_def symbol_rules_def asset_rules_def)

text \<open>
  C10: an asset without cased characters is not uppercase for \<open>str.isupper\<close>, so a
  record with such a base or quote asset is refused with \<open>ValidationError\<close>; the entry
  for the asset is that of the uppercase check (or of the length bound, checked before
  it, when the asset is longer than 10).
\<close>

theorem asset_without_cased_characters_rejected:
  assumes "no_cased a"
  shows "\<not> isupper a
     \<and> (\<exists>errs. PairModel_init s a q = Inl (ValidationError errs)
           \<and> (''base_asset'', if length a > 10 then AnyStrMaxLengthError 10
                  else ValueError ''Asset symbols must be uppercase'') \<in> set errs)
     \<and> (\<exists>errs. PairModel_init s b a = Inl (ValidationError errs)
           \<and> (''quote_asset'', if length a > 10 then AnyStrMaxLengthError 10
                  else ValueError ''Asset symbols must be uppercase'') \<in> set errs)"
proof -
  from assms have nu: "\<not> isupper a"
    by (simp add: isupper_def isupper_loop_no_cased)
  then show ?thesis
    by (auto simp: PairModel_init_def Let_def symbol_chain asset_chain field_errors_def)
qed

theorem asset_without_cased_characters_rejected_witness:
  "no_cased ''123'' \<and> \<not> isupper ''123''
   \<and> PairModel_init ''ETHBTC'' ''123'' ''BTC''
       = Inl (ValidationError [(''base_asset'', ValueError ''Asset symbols must be uppercase'')])
   \<and> no_cased [] \<and> \<not> isupper []
   \<and> PairModel_init ''ETHBTC'' ''ETH'' []
       = Inl (ValidationError [(''quote_asset'', ValueError ''Asset symbols must be uppercase'')])"
proof -
  have h1: "no_cased ''123''" and h2: "no_cased []"
    by (simp_all add: no_cased_def char_class_defs)
  have u1: "\<not> isupper ''123''" and u2: "\<not> isupper []"
    using asset_without_cased_characters_rejected [OF h1]
      asset_without_cased_characters_rejected [OF h2] by simp_all
  have v: "isalnum ''ETHBTC''" "isupper ''ETH''" "isupper ''BTC''"
    by (simp_all add: isalnum_def isupper_def char_class_defs)
  show ?thesis
    using h1 h2 u1 u2 v
    by (simp add: PairModel_init_def symbol_chain asset_chain field_errors_def)
qed


section \<open>Properties of the exchange client\<close>

lemma get_pairs_loop_symbols:
  "get_pairs_loop ds acc = Inr ps \<Longrightarrow>
     product_symbols ds = Inr (drop (length acc) (map symbol ps)) \<and> take (length acc) ps = acc"
proof (induction ds arbitrary: acc ps)
  case Nil
  then show ?case by simp
next
  case (Cons d ds)
  from Cons.prems obtain s b q pair where
    s: "getitem d ''symbol'' = Inr s" and b: "getitem d ''baseAsset'' = Inr b"
    and q: "getitem d ''quoteAsset'' = Inr q" and p: "PairModel_init s b q = Inr pair"
    and rest: "get_pairs_loop ds (acc @ [pair]) = Inr ps"
    by (auto simp: bind_exc_def split: sum.splits)
  from Cons.IH [OF rest] have
    ih1: "product_symbols ds = Inr (drop (Suc (length acc)) (map symbol ps))"
    and ih2: "take (Suc (length acc)) ps = acc @ [pair]"
    by simp_all
  from ih2 have len: "length acc < length ps"
    by (metis length_append_singleton length_take lessI min_less_iff_conj)
  from ih2 len have nth: "ps ! length acc = pair"
    by (metis nth_take lessI nth_append_length)
  from ih2 have tk: "take (length acc) ps = acc"
    by (metis append1_eq_conv take_Suc_conv_app_nth len)
  have sym: "symbol pair = s"
    using PairModel_init_Inr [OF p] by simp
  have "drop (length acc) (map symbol ps) = s # drop (Suc (length acc)) (map symbol ps)"
    using len nth sym by (simp add: Cons_nth_drop_Suc [symmetric])
  with s ih1 tk show ?case
    by (simp add: bind_exc_def)
qed

text \<open>
  C6, as stated, fails: \<open>get_products\<close> does not validate. For a response that lists the
  pair BTCUSDT, whose symbol has 7 characters, it returns the symbol, while \<open>get_pairs\<close>
  raises \<open>ValidationError\<close> and returns no entry.
\<close>

theorem get_products_without_get_pairs:
  "get_products (Inr [''symbols'' \<mapsto>
       [[''symbol'' \<mapsto> ''BTCUSDT'', ''baseAsset'' \<mapsto> ''BTC'', ''quoteAsset'' \<mapsto> ''USDT'']]])
     = Inr \<lparr>index = RangeIndex 1, columns = [''Product''], rows = [[CStr ''BTCUSDT'']]\<rparr>
   \<and> get_pairs (Inr [''symbols'' \<mapsto>
       [[''symbol'' \<mapsto> ''BTCUSDT'', ''baseAsset'' \<mapsto> ''BTC'', ''quoteAsset'' \<mapsto> ''USDT'']]])
     = Inl (ValidationError [(''symbol'', AnyStrMaxLengthError 6)])"
  by (simp add: get_products_def get_pairs_def getitem_def bind_exc_def PairModel_init_def
        symbol_chain asset_chain field_errors_def isupper_def char_class_defs)

text \<open>
  C6, amended: for every response on which \<open>get_pairs\<close> returns, \<open>get_products\<close> returns
  the frame whose single column \<open>Product\<close> holds the symbol of each pair that \<open>get_pairs\<close>
  returns, one row per pair, in the same order.
\<close>

theorem get_products_projects_get_pairs:
  assumes "get_pairs response = Inr pairs"
  shows "get_products response =
           Inr \<lparr>index = RangeIndex (length pairs), columns = [''Product''],
                rows = map (\<lambda>p. [CStr (symbol p)]) pairs\<rparr>
     \<and> bind_exc (get_products response) (\<lambda>df. getitem_column df ''Product'')
           = Inr (map (\<lambda>p. CStr (symbol p)) pairs)"
proof -
  from assms obtain data symbols where
    r: "response = Inr data" and sy: "getitem data ''symbols'' = Inr symbols"
    and lp: "get_pairs_loop symbols [] = Inr pairs"
    by (auto simp: get_pairs_def bind_exc_def split: sum.splits)
  from get_pairs_loop_symbols [OF lp] have ps: "product_symbols symbols = Inr (map symbol pairs)"
    by simp
  have g: "get_products response =
           Inr \<lparr>index = RangeIndex (length pairs), columns = [''Product''],
                rows = map (\<lambda>p. [CStr (symbol p)]) pairs\<rparr>"
    by (simp add: get_products_def r sy ps bind_exc_def comp_def)
  then show ?thesis
    by (simp add: bind_exc_def getitem_column_def comp_def)
qed

theorem get_products_projects_get_pairs_witness:
  "get_pairs (Inr [''symbols'' \<mapsto>
       [[''symbol'' \<mapsto> ''ETHBTC'', ''baseAsset'' \<mapsto> ''ETH'', ''quoteAsset'' \<mapsto> ''BTC''],
        [''symbol'' \<mapsto> ''LTCBTC'', ''baseAsset'' \<mapsto> ''LTC'', ''quoteAsset'' \<mapsto> ''BTC'']]])
     = Inr [\<lparr>symbol = ''ETHBTC'', base_asset = ''ETH'', quote_asset = ''BTC''\<rparr>,
            \<lparr>symbol = ''LTCBTC'', base_asset = ''LTC'', quote_asset = ''BTC''\<rparr>]
   \<and> get_products (Inr [''symbols'' \<mapsto>
       [[''symbol'' \<mapsto> ''ETHBTC'', ''baseAsset'' \<mapsto> ''ETH'', ''quoteAsset'' \<mapsto> ''BTC''],
        [''symbol'' \<mapsto> ''LTCBTC'', ''baseAsset'' \<mapsto> ''LTC'', ''quoteAsset'' \<mapsto> ''BTC'']]])
     = Inr \<lparr>index = RangeIndex 2, columns = [''Product''],
            rows = [[CStr ''ETHBTC''], [CStr ''LTCBTC'']]\<rparr>"
proof -
  have h: "get_pairs (Inr [''symbols'' \<mapsto>
       [[''symbol'' \<mapsto> ''ETHBTC'', ''baseAsset'' \<mapsto> ''ETH'', ''quoteAsset'' \<mapsto> ''BTC''],
        [''symbol'' \<mapsto> ''LTCBTC'', ''baseAsset'' \<mapsto> ''LTC'', ''quoteAsset'' \<mapsto> ''BTC'']]])
     = Inr [\<lparr>symbol = ''ETHBTC'', base_asset = ''ETH'', quote_asset = ''BTC''\<rparr>,
            \<lparr>symbol = ''LTCBTC'', base_asset = ''LTC'', quote_asset = ''BTC''\<rparr>]"
    by (simp add: get_pairs_def getitem_def bind_exc_def PairModel_init_def
          symbol_chain asset_chain isalnum_def isupper_def char_class_defs)
  from h get_products_projects_get_pairs [OF h] show ?thesis
    by simp
qed


section \<open>Properties of the candle parser\<close>

lemma double_range: "(2::rat) ^ 64 \<le> 2 ^ 1024 - 2 ^ 970"
proof -
  have "(2::rat) ^ 1024 = 2 ^ 970 * 2 ^ 54"
    by (simp add: power_add [symmetric])
  then have "(2::rat) ^ 1024 - 2 ^ 970 = 2 ^ 970 * (2 ^ 54 - 1)"
    by (simp add: algebra_simps)
  moreover have "(2::rat) ^ 970 * 1 \<le> 2 ^ 970 * (2 ^ 54 - 1)"
    by (rule mult_left_mono) simp_all
  moreover have "(2::rat) ^ 64 \<le> 2 ^ 970"
    by (rule power_increasing) simp_all
  ultimately show ?thesis by simp
qed

lemma round_double_small: "\<bar>q\<bar> < 2 ^ 64 \<Longrightarrow> round_double q = Float q"
  using double_range by (simp add: round_double_def)

lemmas float_parse_defs =
  float_of_str_def strip_def sign_prefix_def lower_ascii_def parse_number_def
  parse_exponent_def digitpart_def is_digit_def is_space_def nat_of_digits_def pow10_def

text \<open>
  C5: the fixed kline of the specification, returned by the klines request, is parsed
  into one \<open>HistoricalData\<close> with open 100.5, high 101.0, low 99.5, close 100.8 and 42
  trades (and the other seven fields as the array gives them).
\<close>

theorem parse_fixed_kline:
  "get_historical_data
     (\<lambda>p i s e.
        Inr [[KInt 1690000000000, KStr ''100.5'', KStr ''101.0'', KStr ''99.5'', KStr ''100.8'',
              KStr ''10.0'', KInt 1690003600000, KStr ''1000.0'', KInt 42, KStr ''5.0'',
              KStr ''500.0'', KStr ''0'']])
     product iv start_time end_time
   = Inr [\<lparr>open_time = 1690000000000, open' = Float 100.5, high = Float 101.0,
           low = Float 99.5, close = Float 100.8, volume = Float 10.0,
           close_time = 1690003600000, quote_asset_volume = Float 1000.0, num_trades = 42,
           taker_buy_base_asset_volume = Float 5.0, taker_buy_quote_asset_volume = Float 500.0,
           ignore = Float 0\<rparr>]"
proof -
  have f: "py_float (KStr ''100.5'') = Inr (Float 100.5)"
    "py_float (KStr ''101.0'') = Inr (Float 101.0)"
    "py_float (KStr ''99.5'') = Inr (Float 99.5)"
    "py_float (KStr ''100.8'') = Inr (Float 100.8)"
    "py_float (KStr ''10.0'') = Inr (Float 10.0)"
    "py_float (KStr ''1000.0'') = Inr (Float 1000.0)"
    "py_float (KStr ''5.0'') = Inr (Float 5.0)"
    "py_float (KStr ''500.0'') = Inr (Float 500.0)"
    "py_float (KStr ''0'') = Inr (Float 0)"
    by (simp_all add: py_float_def float_parse_defs round_double_small)
  show ?thesis
    by (simp add: get_historical_data_def parse_candle_def candle_getitem_def bind_exc_def f
          HistoricalData_init_def int_validator_def)
qed


section \<open>Properties of the time series\<close>

text \<open>
  C1: on the empty list of candles the two lines that build the frame raise
  \<open>KeyError\<close>: the frame of an empty list has no column, so \<open>df['open_time']\<close> fails,
  whatever \<open>pd.to_datetime\<close> would do. No empty series is returned.
\<close>

theorem empty_candles_raise_KeyError:
  "historical_data_df to_datetime [] = Inl (KeyError ''open_time'')"
  by (simp add: historical_data_df_def DataFrame_of_dicts_def getitem_column_def bind_exc_def)

lemma example_frame:
  "historical_data_df (pd_to_datetime example_env) [example_candle] = Inr example_df"
  by (simp add: historical_data_df_def example_env_def getitem_column_def bind_exc_def
        set_index_def DataFrame_of_dicts_def HistoricalData_dict_def example_candle_def
        example_df_def)


section \<open>Properties of the windows\<close>

subsection \<open>Rounding to a double\<close>

lemma round_half_even_upper: "of_int (round_half_even x) \<le> x + 1 / 2"
proof -
  define n where "n = \<lfloor>x\<rfloor>"
  have "of_int n \<le> x" by (simp add: n_def)
  then show ?thesis
    unfolding round_half_even_def Let_def n_def [symmetric] by auto
qed

lemma round_half_even_lower: "x - 1 / 2 \<le> of_int (round_half_even x)"
proof -
  define n where "n = \<lfloor>x\<rfloor>"
  have "x < of_int n + 1" unfolding n_def by linarith
  then show ?thesis
    unfolding round_half_even_def Let_def n_def [symmetric] by auto
qed

lemma round_half_even_le: "x \<le> of_int n \<Longrightarrow> round_half_even x \<le> n"
proof -
  assume "x \<le> of_int n"
  with round_half_even_upper [of x] have "(of_int (round_half_even x) :: rat) < of_int n + 1"
    by linarith
  then have "(of_int (round_half_even x) :: rat) < of_int (n + 1)" by simp
  then have "round_half_even x < n + 1" by (simp only: of_int_less_iff)
  then show ?thesis by simp
qed

lemma round_half_even_ge: "of_int n \<le> x \<Longrightarrow> n \<le> round_half_even x"
proof -
  assume "of_int n \<le> x"
  with round_half_even_lower [of x] have "(of_int n :: rat) - 1 < of_int (round_half_even x)"
    by linarith
  then have "(of_int (n - 1) :: rat) < of_int (round_half_even x)" by simp
  then have "n - 1 < round_half_even x" by (simp only: of_int_less_iff)
  then show ?thesis by simp
qed

lemma round_half_even_less: "x < of_int n - 1 / 2 \<Longrightarrow> round_half_even x < n"
proof -
  assume "x < of_int n - 1 / 2"
  with round_half_even_upper [of x] have "(of_int (round_half_even x) :: rat) < of_int n"
    by linarith
  then show ?thesis by (simp only: of_int_less_iff)
qed

lemma round_half_even_of_int: "round_half_even (of_int n) = n"
  using round_half_even_le [of "of_int n" n] round_half_even_ge [of n "of_int n"] by simp

lemma ilog2_below_power:
  assumes "x < 2 ^ k" "0 < k"
  shows "ilog2 x \<le> int k - 1"
proof (cases "1 \<le> x")
  case True
  from assms(1) have "\<lfloor>x\<rfloor> < 2 ^ k"
    by (metis floor_less_iff of_int_numeral of_int_power)
  then have "bitlen \<lfloor>x\<rfloor> \<le> int k"
    by (simp add: bitlen_le_iff_power)
  with True show ?thesis by (simp add: ilog2_def)
next
  case False
  then have "ilog2 x \<le> 0" by (simp add: ilog2_def bitlen_nonneg)
  with assms(2) show ?thesis by simp
qed

text \<open>Below \<open>2^k\<close> the doubles lie on a grid of \<open>1 / 2^j\<close> with \<open>j\<close> at least \<open>53 - k\<close>.\<close>

lemma ulp_grid:
  assumes "\<bar>x\<bar> < 2 ^ k" "0 < k" "k \<le> 53"
  obtains j where "53 - k \<le> j" "ulp x = 1 / 2 ^ j"
proof -
  define m where "m = max (ilog2 \<bar>x\<bar>) (- 1022) - 52"
  from assms have "ilog2 \<bar>x\<bar> \<le> int k - 1" by (intro ilog2_below_power)
  with assms(3) have m: "m \<le> int k - 53" by (simp add: m_def)
  with assms(3) have "m \<le> 0" by simp
  then have "(2::rat) powi m = 1 / 2 ^ nat (- m)"
    by (cases "m = 0") (simp_all add: power_int_def power_one_over)
  then have "ulp x = 1 / 2 ^ nat (- m)"
    by (simp add: ulp_def m_def)
  moreover from m have "53 - k \<le> nat (- m)" by linarith
  ultimately show ?thesis using that by blast
qed

text \<open>The whole seconds are a double.\<close>

lemma nearest_double_of_int:
  assumes "\<bar>s\<bar> < 2 ^ 34"
  shows "nearest_double (of_int s) = of_int s"
proof (cases "s = 0")
  case True
  then show ?thesis by (simp add: nearest_double_def)
next
  case False
  from assms have "\<bar>of_int s :: rat\<bar> < 2 ^ 34"
    by (metis of_int_abs of_int_less_iff of_int_numeral of_int_power)
  then obtain j where j: "ulp (of_int s) = 1 / 2 ^ j"
    using ulp_grid [of "of_int s" 34] by auto
  have "of_int s / (1 / 2 ^ j) = (of_int (s * 2 ^ j) :: rat)" by simp
  then have "round_half_even (of_int s / (1 / 2 ^ j)) = s * 2 ^ j"
    by (simp only: round_half_even_of_int)
  with False show ?thesis
    by (simp add: nearest_double_def j)
qed

text \<open>
  The fraction of a second is a double from 0 to \<open>1 - 1/2^20 - 1/2^30\<close>, which is a
  double above 0.999999.
\<close>

lemma nearest_double_fraction:
  assumes "0 \<le> us" "us < 1000000"
  shows "0 \<le> nearest_double (of_int us / 1000000)
       \<and> nearest_double (of_int us / 1000000) \<le> 1073740799 / 1073741824"
proof (cases "us = 0")
  case True
  then show ?thesis by (simp add: nearest_double_def)
next
  case False
  define y :: rat where "y = of_int us / 1000000"
  from assms False have "0 < us" "us \<le> 999999" by simp_all
  then have "(0::rat) < of_int us" "(of_int us :: rat) \<le> 999999"
    by (simp, metis of_int_le_iff of_int_numeral)
  then have y: "0 < y" "y \<le> 999999 / 1000000"
    by (simp_all add: y_def)
  then have "\<bar>y\<bar> < 2 ^ 1" by simp
  then obtain j where j: "52 \<le> j" "ulp y = 1 / 2 ^ j"
    using ulp_grid [of y 1] by auto
  define i where "i = j - 30"
  with j have ji: "j = 30 + i" by simp
  have lo: "0 \<le> round_half_even (y * 2 ^ j)"
    using y by (intro round_half_even_ge) simp
  have "y * 2 ^ j \<le> (1073740799 / 1073741824) * 2 ^ j"
    using y by (intro mult_right_mono) simp_all
  also have "\<dots> = of_int (1073740799 * 2 ^ i)"
    by (simp add: ji power_add)
  finally have hi: "round_half_even (y * 2 ^ j) \<le> 1073740799 * 2 ^ i"
    by (rule round_half_even_le)
  have nd: "nearest_double y = of_int (round_half_even (y * 2 ^ j)) / 2 ^ j"
    using y by (simp add: nearest_double_def j)
  from lo have "0 \<le> nearest_double y" by (simp add: nd)
  moreover have "nearest_double y \<le> 1073740799 / 1073741824"
  proof -
    from hi have "(of_int (round_half_even (y * 2 ^ j)) :: rat) \<le> of_int (1073740799 * 2 ^ i)"
      by (simp only: of_int_le_iff)
    then have "(of_int (round_half_even (y * 2 ^ j)) :: rat) / 2 ^ j
        \<le> of_int (1073740799 * 2 ^ i) / 2 ^ j"
      by (intro divide_right_mono) simp_all
    also have "\<dots> = 1073740799 / 1073741824"
      by (simp add: ji power_add)
    finally show ?thesis by (simp add: nd)
  qed
  ultimately show ?thesis by (simp add: y_def)
qed

text \<open>
  Whole seconds from 0 to below \<open>2^34\<close> plus such a fraction: there the doubles are at
  most \<open>1/2^19\<close> apart, and the sum is rounded to a double of the same second.
\<close>

lemma nearest_double_same_second:
  assumes s: "0 \<le> s" "s < 2 ^ 34"
    and f: "0 \<le> f" "f \<le> 1073740799 / 1073741824"
  shows "of_int s \<le> nearest_double (of_int s + f) \<and> nearest_double (of_int s + f) < of_int s + 1"
proof (cases "of_int s + f = 0")
  case True
  moreover from s(1) have "(0::rat) \<le> of_int s" by simp
  ultimately have "(of_int s :: rat) = 0" using f(1) by linarith
  with True show ?thesis by (simp add: nearest_double_def)
next
  case False
  define x :: rat where "x = of_int s + f"
  from s(2) have "s + 1 \<le> 2 ^ 34" by simp
  then have "(of_int (s + 1) :: rat) \<le> 2 ^ 34"
    by (metis of_int_le_iff of_int_numeral of_int_power)
  moreover from s(1) have s0: "(0::rat) \<le> of_int s" by simp
  ultimately have "\<bar>x\<bar> < 2 ^ 34" using f by (simp add: x_def)
  then obtain j where j: "19 \<le> j" "ulp x = 1 / 2 ^ j"
    using ulp_grid [of x 34] by auto
  from False have "x \<noteq> 0" by (simp add: x_def)
  then have nd: "nearest_double x = of_int (round_half_even (x * 2 ^ j)) / 2 ^ j"
    by (simp add: nearest_double_def j)
  have "(of_int (s * 2 ^ j) :: rat) \<le> x * 2 ^ j"
    using f(1) by (simp add: x_def algebra_simps)
  then have "s * 2 ^ j \<le> round_half_even (x * 2 ^ j)"
    by (rule round_half_even_ge)
  then have "(of_int (s * 2 ^ j) :: rat) \<le> of_int (round_half_even (x * 2 ^ j))"
    by (simp only: of_int_le_iff)
  then have "(of_int (s * 2 ^ j) :: rat) / 2 ^ j \<le> of_int (round_half_even (x * 2 ^ j)) / 2 ^ j"
    by (intro divide_right_mono) simp_all
  then have lower: "of_int s \<le> nearest_double x" by (simp add: nd)
  define i where "i = j - 19"
  with j have ji: "j = 19 + i" by simp
  have "(1::rat) \<le> 2 ^ i" by simp
  then have "(1 / 2 :: rat) < (1025 / 2048) * 2 ^ i" by linarith
  also have "\<dots> = (1 - 1073740799 / 1073741824) * 2 ^ j"
    by (simp add: ji power_add)
  finally have "(1073740799 / 1073741824 :: rat) * 2 ^ j < 2 ^ j - 1 / 2"
    by (simp add: algebra_simps)
  moreover have "f * 2 ^ j \<le> (1073740799 / 1073741824) * 2 ^ j"
    using f(2) by (intro mult_right_mono) simp_all
  ultimately have "f * 2 ^ j < 2 ^ j - 1 / 2" by linarith
  then have "x * 2 ^ j < of_int ((s + 1) * 2 ^ j) - 1 / 2"
    by (simp add: x_def algebra_simps)
  then have "round_half_even (x * 2 ^ j) < (s + 1) * 2 ^ j"
    by (rule round_half_even_less)
  then have "(of_int (round_half_even (x * 2 ^ j)) :: rat) < of_int ((s + 1) * 2 ^ j)"
    by (simp only: of_int_less_iff)
  then have "(of_int (round_half_even (x * 2 ^ j)) :: rat) / 2 ^ j
      < of_int ((s + 1) * 2 ^ j) / 2 ^ j"
    by (intro divide_strict_right_mono) simp_all
  then have "nearest_double x < of_int s + 1" by (simp add: nd)
  with lower show ?thesis by (simp add: x_def)
qed

subsection \<open>The times of a request\<close>

text \<open>
  A datetime that the zone converts to a second from 0 to below \<open>2^34\<close>, that is from
  1970-01-01 00:00:00 to 2514-05-30 01:53:03 UTC, is passed as that second in
  milliseconds: the fraction of the second is dropped.
\<close>

lemma request_time_whole_seconds:
  assumes "mk (v div 1000000) = Inr s" "0 \<le> s" "s < 2 ^ 34"
  shows "request_time mk (Datetime v) = Inr (s * 1000)"
proof -
  define f where "f = nearest_double (of_int (v mod 1000000) / 1000000)"
  define x where "x = nearest_double (of_int s + f)"
  have "0 \<le> v mod 1000000" "v mod 1000000 < 1000000" by simp_all
  then have f: "0 \<le> f" "f \<le> 1073740799 / 1073741824"
    unfolding f_def using nearest_double_fraction by blast+
  from assms(2,3) have "\<bar>s\<bar> < 2 ^ 34" by simp
  then have i: "nearest_double (of_int s) = of_int s"
    by (rule nearest_double_of_int)
  from nearest_double_same_second [OF assms(2,3) f]
  have x: "of_int s \<le> x" "x < of_int s + 1"
    by (simp_all add: x_def)
  then have "\<lfloor>x\<rfloor> = s" by (simp add: floor_unique)
  moreover from x(1) assms(2) have "0 \<le> x" by simp
  ultimately have "py_int x = s" by (simp add: py_int_def)
  then show ?thesis
    by (simp add: request_time_def timestamp_def bind_exc_def assms(1) i x_def f_def)
qed

lemma request_time_utc:
  "0 \<le> u div 1000000 \<Longrightarrow> u div 1000000 < 2 ^ 34 \<Longrightarrow>
   request_time (\<lambda>w. Inr w) (Datetime u) = Inr ((u div 1000000) * 1000)"
  by (rule request_time_whole_seconds) simp_all


lemmas run_defs = then_run_def emit_def lift_def

text \<open>A window leaves its trace and returns its outcome.\<close>

lemma fetch_window_run:
  "fetch_window env w product start_time end_time tr =
     (tr @ window_trace env w product start_time end_time,
      window_outcome env product start_time end_time)"
  by (simp add: fetch_window_def window_trace_def window_outcome_def run_defs bind_exc_def
        split: sum.splits)






section \<open>Properties of the logging\<close>

text \<open>
  C9: a message logged at level INFO through either logger is written by the console
  handler with the prefix once and by the file handler with the prefix twice: the first
  handler's formatting changed the message of the record that the second one formats.
  Both lines have the form time - logger - level - message.
\<close>

theorem second_handler_doubles_prefix:
  "Logger_log baseloader_logger t INFO m =
     [(console_handler, t @ '' - baseloader - INFO - CUSTOM: '' @ m),
      (file_handler, t @ '' - baseloader - INFO - CUSTOM: CUSTOM: '' @ m)]
   \<and> Logger_log binanceloader_logger t INFO m =
     [(console_handler, t @ '' - binanceloader - INFO - CUSTOM: '' @ m),
      (file_handler, t @ '' - binanceloader - INFO - CUSTOM: CUSTOM: '' @ m)]"
  by (simp add: Logger_log_def baseloader_logger_def binanceloader_logger_def levelno_of_def
        getLevelName_def CustomFormatter_format_def Formatter_format_def)


section \<open>Properties of the orchestrator\<close>

lemma products_loop_append:
  "products_loop env sd sm sy et ps tr = (tr1, Inr ()) \<Longrightarrow>
   products_loop env sd sm sy et (ps @ qs) tr = products_loop env sd sm sy et qs tr1"
proof (induction ps arbitrary: tr)
  case Nil
  then show ?case by (simp add: lift_def)
next
  case (Cons p ps)
  obtain tr' r where b: "product_body env sd sm sy et p tr = (tr', r)"
    by (cases "product_body env sd sm sy et p tr")
  with Cons.prems have r: "r = Inr ()"
    and rest: "products_loop env sd sm sy et ps tr' = (tr1, Inr ())"
    by (auto simp: then_run_def split: sum.splits)
  from Cons.IH [OF rest] b r show ?case
    by (simp add: then_run_def)
qed

text \<open>
  A window fails when fetching fails, when parsing fails or when assembling the frame
  fails, with the exception of that step.
\<close>

lemma window_outcome_failure:
  assumes "request_time (local_mktime env) start_time = Inr st"
    and "request_time (local_mktime env) end_time = Inr et"
  shows "klines_response env product interval st et = Inl e \<Longrightarrow>
           window_outcome env product start_time end_time = Inl e"
    and "klines_response env product interval st et = Inr data \<Longrightarrow>
         historical_data_loop data [] = Inl e \<Longrightarrow>
           window_outcome env product start_time end_time = Inl e"
    and "klines_response env product interval st et = Inr data \<Longrightarrow>
         historical_data_loop data [] = Inr historical_data \<Longrightarrow>
         historical_data_df (pd_to_datetime env) historical_data = Inl e \<Longrightarrow>
           window_outcome env product start_time end_time = Inl e"
  by (simp_all add: window_outcome_def get_historical_data_def bind_exc_def assms)

lemma plot_candlestick_run:
  "plot_candlestick env df title tr = (tr @ [Plot df title], mpf_plot env df title)"
  by (simp add: plot_candlestick_def run_defs)

lemma parse_example_kline: "parse_candle example_kline = Inr example_candle"
proof -
  have f: "py_float (KStr ''100.5'') = Inr (Float 100.5)"
    "py_float (KStr ''101.0'') = Inr (Float 101.0)"
    "py_float (KStr ''99.5'') = Inr (Float 99.5)"
    "py_float (KStr ''100.8'') = Inr (Float 100.8)"
    "py_float (KStr ''10.0'') = Inr (Float 10.0)"
    "py_float (KStr ''1000.0'') = Inr (Float 1000.0)"
    "py_float (KStr ''5.0'') = Inr (Float 5.0)"
    "py_float (KStr ''500.0'') = Inr (Float 500.0)"
    "py_float (KStr ''0'') = Inr (Float 0)"
    by (simp_all add: py_float_def float_parse_defs round_double_small)
  show ?thesis
    by (simp add: example_kline_def example_candle_def parse_candle_def candle_getitem_def
          bind_exc_def f HistoricalData_init_def int_validator_def)
qed

lemma example_starts:
  "start_time_day (Datetime 1690000000500000) = Inr (Datetime 1689913600500000)"
  "start_time_month (Datetime 1690000000500000) = Inr (Datetime 1687408000500000)"
  "start_time_year (Datetime 1690000000500000) = Inr (Datetime 1658464000500000)"
  by (simp_all add: start_time_day_def start_time_month_def start_time_year_def
        datetime_sub_def timedelta_days_def datetime_min_def datetime_max_def)

text \<open>The times of the requests of the examples.\<close>

lemma example_times:
  "request_time (\<lambda>w. Inr w) (Datetime 1689913600500000) = Inr 1689913600000"
  "request_time (\<lambda>w. Inr w) (Datetime 1687408000500000) = Inr 1687408000000"
  "request_time (\<lambda>w. Inr w) (Datetime 1658464000500000) = Inr 1658464000000"
  "request_time (\<lambda>w. Inr w) (Datetime 1690000000500000) = Inr 1690000000000"
  by (simp_all add: request_time_utc)

text \<open>An answered window of the examples, and one whose request fails.\<close>

lemma example_window:
  assumes "local_mktime env = (\<lambda>w. Inr w)"
    and "request_time (\<lambda>w. Inr w) start_time = Inr st"
    and "request_time (\<lambda>w. Inr w) end_time = Inr et"
    and "pd_to_datetime env = pd_to_datetime example_env"
  shows "klines_response env product interval st et = Inr [example_kline] \<Longrightarrow>
           window_outcome env product start_time end_time = Inr example_df
           \<and> window_trace env w product start_time end_time =
               [Print_window_header w, GET_klines product interval st et, Print_frame example_df]"
    and "klines_response env product interval st et = Inl e \<Longrightarrow>
           window_outcome env product start_time end_time = Inl e
           \<and> window_trace env w product start_time end_time =
               [Print_window_header w, GET_klines product interval st et]"
  by (simp_all add: window_outcome_def window_trace_def get_historical_data_def bind_exc_def
        assms parse_example_kline example_frame)

text \<open>
  C8, as stated, fails: when the request for the day window of BTCUSDT fails while
  every other request would be answered, the script ends there with the exception;
  nothing is printed, requested or drawn for the other windows and symbols.
\<close>

theorem first_failure_ends_the_run:
  "orchestrator (example_env\<lparr>klines_response :=
       (\<lambda>product iv st et. if product = ''BTCUSDT'' then Inl RequestException
                            else Inr [example_kline])\<rparr>)
   = ([Print_products_header, GET_exchangeInfo,
       Print_frame \<lparr>index = RangeIndex 1, columns = [''Product''], rows = [[CStr ''BTCUSDT'']]\<rparr>,
       Print_history_header ''BTCUSDT'', Print_window_header Day,
       GET_klines ''BTCUSDT'' ''1d'' 1689913600000 1690000000000],
      Inl RequestException)"
  by (simp add: orchestrator_def run_defs example_env_def get_products_def getitem_def
        bind_exc_def example_starts selected_products_def product_body_def fetch_window_def
        example_times interval_def get_historical_data_def)

text \<open>
  C8, amended: no failure of a step is caught. Let the loop have completed the products
  before \<open>product\<close>. If a window of \<open>product\<close> fails, in fetching, in parsing or in
  assembling the frame, while the windows before it gave their frames, the loop ends
  with that exception, and its trace ends with the request of that window: the
  windows after it are not requested, no chart is drawn, and the products that remain
  are not touched. If the three windows gave their frames and drawing a chart fails
  while the charts before it were drawn, the loop ends with that exception, and its
  trace ends with that chart: the charts after it and the products that remain are
  not touched.
\<close>

theorem failure_aborts_remaining_iterations:
  assumes "products_loop env sd sm sy et ps tr0 = (tr, Inr ())"
  shows "(window_outcome env product sd et = Inl e \<longrightarrow>
            products_loop env sd sm sy et (ps @ product # rest) tr0 =
              (tr @ Print_history_header product # window_trace env Day product sd et, Inl e))
     \<and> (window_outcome env product sd et = Inr day_df
          \<and> window_outcome env product sm et = Inl e \<longrightarrow>
            products_loop env sd sm sy et (ps @ product # rest) tr0 =
              (tr @ Print_history_header product # window_trace env Day product sd et
                  @ window_trace env Month product sm et, Inl e))
     \<and> (window_outcome env product sd et = Inr day_df
          \<and> window_outcome env product sm et = Inr month_df
          \<and> window_outcome env product sy et = Inl e \<longrightarrow>
            products_loop env sd sm sy et (ps @ product # rest) tr0 =
              (tr @ Print_history_header product # window_trace env Day product sd et
                  @ window_trace env Month product sm et
                  @ window_trace env Year product sy et, Inl e))
     \<and> (window_outcome env product sd et = Inr day_df
          \<and> window_outcome env product sm et = Inr month_df
          \<and> window_outcome env product sy et = Inr year_df
          \<and> mpf_plot env day_df (product @ '' - Last Day'') = Inl e \<longrightarrow>
            products_loop env sd sm sy et (ps @ product # rest) tr0 =
              (tr @ Print_history_header product # window_trace env Day product sd et
                  @ window_trace env Month product sm et
                  @ window_trace env Year product sy et
                  @ [Print_charts_header product,
                     Print_chart_header Day, Plot day_df (product @ '' - Last Day'')], Inl e))
     \<and> (window_outcome env product sd et = Inr day_df
          \<and> window_outcome env product sm et = Inr month_df
          \<and> window_outcome env product sy et = Inr year_df
          \<and> mpf_plot env day_df (product @ '' - Last Day'') = Inr ()
          \<and> mpf_plot env month_df (product @ '' - Last Month'') = Inl e \<longrightarrow>
            products_loop env sd sm sy et (ps @ product # rest) tr0 =
              (tr @ Print_history_header product # window_trace env Day product sd et
                  @ window_trace env Month product sm et
                  @ window_trace env Year product sy et
                  @ [Print_charts_header product,
                     Print_chart_header Day, Plot day_df (product @ '' - Last Day''),
                     Print_chart_header Month, Plot month_df (product @ '' - Last Month'')],
               Inl e))
     \<and> (window_outcome env product sd et = Inr day_df
          \<and> window_outcome env product sm et = Inr month_df
          \<and> window_outcome env product sy et = Inr year_df
          \<and> mpf_plot env day_df (product @ '' - Last Day'') = Inr ()
          \<and> mpf_plot env month_df (product @ '' - Last Month'') = Inr ()
          \<and> mpf_plot env year_df (product @ '' - Last Year'') = Inl e \<longrightarrow>
            products_loop env sd sm sy et (ps @ product # rest) tr0 =
              (tr @ Print_history_header product # window_trace env Day product sd et
                  @ window_trace env Month product sm et
                  @ window_trace env Year product sy et
                  @ [Print_charts_header product,
                     Print_chart_header Day, Plot day_df (product @ '' - Last Day''),
                     Print_chart_header Month, Plot month_df (product @ '' - Last Month''),
                     Print_chart_header Year, Plot year_df (product @ '' - Last Year'')],
               Inl e))"
  by (simp add: products_loop_append [OF assms] product_body_def fetch_window_run
        plot_candlestick_run run_defs)

text \<open>
  The theorem in the two failing environments of the examples. When the request for
  the month of ETHUSDT fails, BTCUSDT is completed, the day of ETHUSDT is fetched, and
  the run ends at the request for its month: nothing is done for its year, its charts
  and LTCUSDT. When the chart of the month of BTCUSDT fails, the run ends at that
  chart: its chart of the year, ETHUSDT and LTCUSDT are not touched.
\<close>

theorem failure_aborts_remaining_iterations_witness:
  "products_loop failing_env (Datetime 1689913600500000) (Datetime 1687408000500000)
     (Datetime 1658464000500000) (Datetime 1690000000500000)
     [''BTCUSDT'', ''ETHUSDT'', ''LTCUSDT''] [] =
   ([Print_history_header ''BTCUSDT'',
      Print_window_header Day, GET_klines ''BTCUSDT'' ''1d'' 1689913600000 1690000000000,
      Print_frame example_df,
      Print_window_header Month, GET_klines ''BTCUSDT'' ''1d'' 1687408000000 1690000000000,
      Print_frame example_df,
      Print_window_header Year, GET_klines ''BTCUSDT'' ''1d'' 1658464000000 1690000000000,
      Print_frame example_df,
      Print_charts_header ''BTCUSDT'',
      Print_chart_header Day, Plot example_df ''BTCUSDT - Last Day'',
      Print_chart_header Month, Plot example_df ''BTCUSDT - Last Month'',
      Print_chart_header Year, Plot example_df ''BTCUSDT - Last Year'',
     Print_history_header ''ETHUSDT'',
      Print_window_header Day, GET_klines ''ETHUSDT'' ''1d'' 1689913600000 1690000000000,
      Print_frame example_df,
      Print_window_header Month, GET_klines ''ETHUSDT'' ''1d'' 1687408000000 1690000000000],
    Inl RequestException)
   \<and> products_loop plot_failing_env (Datetime 1689913600500000) (Datetime 1687408000500000)
     (Datetime 1658464000500000) (Datetime 1690000000500000)
     [''BTCUSDT'', ''ETHUSDT'', ''LTCUSDT''] [] =
   ([Print_history_header ''BTCUSDT'',
      Print_window_header Day, GET_klines ''BTCUSDT'' ''1d'' 1689913600000 1690000000000,
      Print_frame example_df,
      Print_window_header Month, GET_klines ''BTCUSDT'' ''1d'' 1687408000000 1690000000000,
      Print_frame example_df,
      Print_window_header Year, GET_klines ''BTCUSDT'' ''1d'' 1658464000000 1690000000000,
      Print_frame example_df,
      Print_charts_header ''BTCUSDT'',
      Print_chart_header Day, Plot example_df ''BTCUSDT - Last Day'',
      Print_chart_header Month, Plot example_df ''BTCUSDT - Last Month''],
    Inl (ValueError ''mpf.plot''))"
proof -
  let ?sd = "Datetime 1689913600500000" and ?sm = "Datetime 1687408000500000"
  let ?sy = "Datetime 1658464000500000" and ?et = "Datetime 1690000000500000"
  have zone: "local_mktime failing_env = (\<lambda>w. Inr w)"
    "local_mktime plot_failing_env = (\<lambda>w. Inr w)"
    by (simp_all add: failing_env_def plot_failing_env_def example_env_def)
  have frames: "pd_to_datetime failing_env = pd_to_datetime example_env"
    "pd_to_datetime plot_failing_env = pd_to_datetime example_env"
    by (simp_all add: failing_env_def plot_failing_env_def)
  have answers: "klines_response failing_env p interval 1689913600000 1690000000000
        = Inr [example_kline]"
    "klines_response failing_env p interval 1658464000000 1690000000000 = Inr [example_kline]"
    "klines_response failing_env ''BTCUSDT'' interval 1687408000000 1690000000000
        = Inr [example_kline]"
    "klines_response failing_env ''ETHUSDT'' interval 1687408000000 1690000000000
        = Inl RequestException"
    "klines_response plot_failing_env p interval st et = Inr [example_kline]" for p st et
    by (simp_all add: failing_env_def plot_failing_env_def example_env_def)
  have charts: "mpf_plot failing_env df title = Inr ()"
    "mpf_plot plot_failing_env df ''BTCUSDT - Last Day'' = Inr ()"
    "mpf_plot plot_failing_env df ''BTCUSDT - Last Month'' = Inl (ValueError ''mpf.plot'')"
    for df title
    by (simp_all add: failing_env_def plot_failing_env_def example_env_def)
  note day = example_window [OF _ example_times(1) example_times(4)]
    and month = example_window [OF _ example_times(2) example_times(4)]
    and year = example_window [OF _ example_times(3) example_times(4)]
  note windows =
    day(1) [OF zone(1) frames(1) answers(1)] year(1) [OF zone(1) frames(1) answers(2)]
    month(1) [OF zone(1) frames(1) answers(3)] month(2) [OF zone(1) frames(1) answers(4)]
    day(1) [OF zone(2) frames(2) answers(5)] month(1) [OF zone(2) frames(2) answers(5)]
    year(1) [OF zone(2) frames(2) answers(5)]
  have completed: "products_loop failing_env ?sd ?sm ?sy ?et [''BTCUSDT''] [] =
     ([Print_history_header ''BTCUSDT'',
        Print_window_header Day, GET_klines ''BTCUSDT'' interval 1689913600000 1690000000000,
        Print_frame example_df,
        Print_window_header Month, GET_klines ''BTCUSDT'' interval 1687408000000 1690000000000,
        Print_frame example_df,
        Print_window_header Year, GET_klines ''BTCUSDT'' interval 1658464000000 1690000000000,
        Print_frame example_df,
        Print_charts_header ''BTCUSDT'',
        Print_chart_header Day, Plot example_df ''BTCUSDT - Last Day'',
        Print_chart_header Month, Plot example_df ''BTCUSDT - Last Month'',
        Print_chart_header Year, Plot example_df ''BTCUSDT - Last Year''], Inr ())"
    by (simp add: product_body_def fetch_window_run plot_candlestick_run run_defs windows charts)
  have start: "products_loop plot_failing_env ?sd ?sm ?sy ?et [] [] = ([], Inr ())"
    by (simp add: lift_def)
  from failure_aborts_remaining_iterations [OF completed, where product = "''ETHUSDT''"
      and e = RequestException and rest = "[''LTCUSDT'']" and day_df = example_df]
  have fetching: "products_loop failing_env ?sd ?sm ?sy ?et
      [''BTCUSDT'', ''ETHUSDT'', ''LTCUSDT''] [] =
     ([Print_history_header ''BTCUSDT'',
        Print_window_header Day, GET_klines ''BTCUSDT'' interval 1689913600000 1690000000000,
        Print_frame example_df,
        Print_window_header Month, GET_klines ''BTCUSDT'' interval 1687408000000 1690000000000,
        Print_frame example_df,
        Print_window_header Year, GET_klines ''BTCUSDT'' interval 1658464000000 1690000000000,
        Print_frame example_df,
        Print_charts_header ''BTCUSDT'',
        Print_chart_header Day, Plot example_df ''BTCUSDT - Last Day'',
        Print_chart_header Month, Plot example_df ''BTCUSDT - Last Month'',
        Print_chart_header Year, Plot example_df ''BTCUSDT - Last Year'',
       Print_history_header ''ETHUSDT'',
        Print_window_header Day, GET_klines ''ETHUSDT'' interval 1689913600000 1690000000000,
        Print_frame example_df,
        Print_window_header Month, GET_klines ''ETHUSDT'' interval 1687408000000 1690000000000],
      Inl RequestException)"
    by (simp add: windows)
  from failure_aborts_remaining_iterations [OF start, where product = "''BTCUSDT''"
      and e = "ValueError ''mpf.plot''" and rest = "[''ETHUSDT'', ''LTCUSDT'']"
      and day_df = example_df and month_df = example_df and year_df = example_df]
  have drawing: "products_loop plot_failing_env ?sd ?sm ?sy ?et
      [''BTCUSDT'', ''ETHUSDT'', ''LTCUSDT''] [] =
     ([Print_history_header ''BTCUSDT'',
        Print_window_header Day, GET_klines ''BTCUSDT'' interval 1689913600000 1690000000000,
        Print_frame example_df,
        Print_window_header Month, GET_klines ''BTCUSDT'' interval 1687408000000 1690000000000,
        Print_frame example_df,
        Print_window_header Year, GET_klines ''BTCUSDT'' interval 1658464000000 1690000000000,
        Print_frame example_df,
        Print_charts_header ''BTCUSDT'',
        Print_chart_header Day, Plot example_df ''BTCUSDT - Last Day'',
        Print_chart_header Month, Plot example_df ''BTCUSDT - Last Month''],
      Inl (ValueError ''mpf.plot''))"
    by (simp add: windows charts)
  from fetching drawing show ?thesis
    by (simp add: interval_def)
qed

end
